theory Spec2Isabelle
  imports Main "HOL-Library.Sublist"
begin

section \<open>Text helpers\<close>

text \<open>
  JavaScript strings are modelled as \<open>string\<close>. Both sources are plain ASCII, so a
  character of the model is a character of the source. A template literal that spans
  several source lines is written as the list of its lines, joined by the newline
  character, after the escapes of the literal (a backslash before a backquote or a
  dollar sign) have been read.
\<close>

fun join_lines :: "string list \<Rightarrow> string" where
  "join_lines [] = []"
| "join_lines [l] = l"
| "join_lines (l # m # ls) = l @ CHR 0x0A # join_lines (m # ls)"

text \<open>\<open>split_on sep s\<close> cuts \<open>s\<close> at every \<open>sep\<close>, as \<open>s.split(sep)\<close> does.\<close>

fun split_on :: "char \<Rightarrow> string \<Rightarrow> string list" where
  "split_on sep [] = [[]]"
| "split_on sep (c # cs) =
     (if c = sep then [] # split_on sep cs
      else (case split_on sep cs of
              [] \<Rightarrow> [[c]]
            | l # ls \<Rightarrow> (c # l) # ls))"

section \<open>The templates of src/index.js\<close>

definition appJsContent :: string where
  \<open>appJsContent = join_lines
    [
     '''',
     ''import express from 'express';'',
     ''import cors from 'cors';'',
     ''import userRoutes from './routes/userRoutes.js';'',
     '''',
     ''const app = express();'',
     '''',
     ''app.use(cors());'',
     ''app.use(express.json());'',
     '''',
     ''// Use routes from the routes folder'',
     ''app.use('/api/user', userRoutes);'',
     '''',
     ''export default app;''
    ]\<close>

definition serverJsContent :: string where
  \<open>serverJsContent = join_lines
    [
     '''',
     ''import dotenv from 'dotenv';'',
     ''import { connectDB } from './src/config/db.js';'',
     ''import http from 'http';'',
     ''import app from './src/app.js'; // Correctly import app'',
     '''',
     ''dotenv.config();'',
     '''',
     ''// Connect to MongoDB'',
     ''connectDB();'',
     '''',
     ''const PORT = process.env.PORT || 3000;'',
     '''',
     ''// Function to find an available port'',
     ''const findAvailablePort = (port, maxPort = 65535) => {'',
     ''  return new Promise((resolve) => {'',
     ''    const server = http.createServer();'',
     ''    server.listen(port, () => {'',
     ''      server.close();'',
     ''      resolve(port);'',
     ''    });'',
     ''    server.on('error', () => {'',
     ''      if (port < maxPort) {'',
     ''        resolve(findAvailablePort(port + 1, maxPort));'',
     ''      } else {'',
     ''        resolve(null); // No available port found'',
     ''      }'',
     ''    });'',
     ''  });'',
     ''};'',
     '''',
     ''// Start the server'',
     ''findAvailablePort(PORT).then((availablePort) => {'',
     ''  if (availablePort) {'',
     ''    app.listen(availablePort, () => {'',
     ''      console.log(`Server is running on port ${availablePort}`);'',
     ''    });'',
     ''  } else {'',
     ''    console.error('No available ports found.');'',
     ''  }'',
     ''});''
    ]\<close>

definition dbJsContent :: string where
  \<open>dbJsContent = join_lines
    [
     ''import mongoose from 'mongoose';'',
     '''',
     ''export const connectDB = async () => {'',
     ''    try {'',
     ''        mongoose.connection.on('connected', () => {'',
     ''            console.log('MongoDB connected');'',
     ''        });'',
     '''',
     ''        mongoose.connection.on('error', (err) => {'',
     ''            console.log('MongoDB error: ' + err);'',
     ''        });'',
     '''',
     ''        await mongoose.connect(process.env.MONGO_URI || "mongodb://localhost:27017/mydatabase", {'',
     ''            useNewUrlParser: true,'',
     ''            useUnifiedTopology: true,'',
     ''        });'',
     ''    } catch (error) {'',
     ''        console.error('Error connecting to MongoDB:', error.message);'',
     ''        process.exit(1);'',
     ''    }'',
     ''};''
    ]\<close>

definition routesIndexContent :: string where
  \<open>routesIndexContent = join_lines
    [
     ''import express from 'express';'',
     ''import userRoutes from './userRoutes.js';'',
     '''',
     ''const router = express.Router();'',
     '''',
     ''// Use user routes'',
     ''router.use('/users', userRoutes);'',
     '''',
     ''export default router;''
    ]\<close>

definition userRoutesContent :: string where
  \<open>userRoutesContent = join_lines
    [
     ''import express from 'express';'',
     '''',
     ''const userRouter = express.Router();'',
     '''',
     ''// Sample user routes'',
     ''userRouter.get('/', (req, res) => {'',
     ''    res.send('Get all users');'',
     ''});'',
     '''',
     ''userRouter.post('/', (req, res) => {'',
     ''    res.send('Create a user');'',
     ''});'',
     '''',
     ''// Define other user-related routes here'',
     '''',
     ''export default userRouter;''
    ]\<close>

section \<open>The templates of src/unnamed/part_000\<close>

definition serverJsContent_part_000 :: string where
  \<open>serverJsContent_part_000 = join_lines
    [
     ''import express from 'express';'',
     ''import cors from 'cors';'',
     ''import dotenv from 'dotenv';'',
     ''import { connectDB } from './src/config/db.js';'',
     ''import routes from './src/routes/index.js';'',
     '''',
     ''dotenv.config();'',
     '''',
     ''// Connect to MongoDB'',
     ''connectDB();'',
     '''',
     ''const app = express();'',
     ''const PORT = process.env.PORT || 3000;'',
     '''',
     ''app.use(cors());'',
     ''app.use(express.json());'',
     '''',
     ''// Use routes from the routes folder'',
     ''app.use('/api', routes);'',
     '''',
     ''app.get('/', (req, res) => {'',
     ''    res.send('Hello, World!');'',
     ''});'',
     '''',
     ''// Function to find an available port'',
     ''const findAvailablePort = (port, maxPort = 65535) => {'',
     ''    return new Promise((resolve) => {'',
     ''        const server = http.createServer();'',
     ''        server.listen(port, () => {'',
     ''            server.close();'',
     ''            resolve(port);'',
     ''        });'',
     ''        server.on('error', () => {'',
     ''            if (port < maxPort) {'',
     ''                resolve(findAvailablePort(port + 1, maxPort));'',
     ''            } else {'',
     ''                resolve(null); // No available port found'',
     ''            }'',
     ''        });'',
     ''    });'',
     ''};'',
     '''',
     ''// Start the server'',
     ''findAvailablePort(PORT).then((availablePort) => {'',
     ''    if (availablePort) {'',
     ''        app.listen(availablePort, () => {'',
     ''            console.log(`Server is running on port ${availablePort}`);'',
     ''        });'',
     ''    } else {'',
     ''        console.error('No available ports found.');'',
     ''    }'',
     ''});''
    ]\<close>

definition dbJsContent_part_000 :: string where
  \<open>dbJsContent_part_000 = join_lines
    [
     ''import mongoose from 'mongoose';'',
     '''',
     ''export const connectDB = async () => {'',
     ''    try {'',
     ''        mongoose.connection.on('connected', () => {'',
     ''            console.log('MongoDB connected');'',
     ''        });'',
     '''',
     ''        mongoose.connection.on('error', (err) => {'',
     ''            console.log('MongoDB error: ' + err);'',
     ''        });'',
     '''',
     ''        await mongoose.connect(process.env.MONGO_URI || "mongodb://localhost:27017/mydatabase", {'',
     ''            useNewUrlParser: true,'',
     ''            useUnifiedTopology: true,'',
     ''        });'',
     ''    } catch (error) {'',
     ''        console.error('Error connecting to MongoDB:', error.message);'',
     ''        process.exit(1);'',
     ''    }'',
     ''};''
    ]\<close>

definition routesIndexContent_part_000 :: string where
  \<open>routesIndexContent_part_000 = join_lines
    [
     ''import express from 'express';'',
     ''import userRoutes from './userRoutes.js';'',
     '''',
     ''const router = express.Router();'',
     '''',
     ''// Use user routes'',
     ''router.use('/users', userRoutes);'',
     '''',
     ''export default router;''
    ]\<close>

definition userRoutesContent_part_000 :: string where
  \<open>userRoutesContent_part_000 = join_lines
    [
     ''import express from 'express';'',
     '''',
     ''const router = express.Router();'',
     '''',
     ''// Sample user routes'',
     ''router.get('/', (req, res) => {'',
     ''    res.send('Get all users');'',
     ''});'',
     '''',
     ''router.post('/', (req, res) => {'',
     ''    res.send('Create a user');'',
     ''});'',
     '''',
     ''// Define other user-related routes here'',
     '''',
     ''export default router;''
    ]\<close>

section \<open>The available-port finder of the generated server.js\<close>

text \<open>
  The function is part of the text of \<open>serverJsContent\<close> (src/index.js, lines 88 to
  103) and of \<open>serverJsContent_part_000\<close> (src/unnamed/part_000, lines 70 to 85); its
  body is the same in both:
  \<^verbatim>\<open>
  const findAvailablePort = (port, maxPort = 65535) => {
    return new Promise((resolve) => {
      const server = http.createServer();
      server.listen(port, () => { server.close(); resolve(port); });
      server.on('error', () => {
        if (port < maxPort) { resolve(findAvailablePort(port + 1, maxPort)); }
        else { resolve(null); }
      });
    });
  };
  \<close>
  Ports are JavaScript numbers that hold integers, modelled as \<open>int\<close>. A probe
  \<open>server.listen(port, ...)\<close> ends in one of the two events the code handles: the
  listening callback (\<open>True\<close>) or the error event (\<open>False\<close>); which one is the state of
  the machine's socket table, a parameter \<open>listen\<close> of the model that does not change
  during one search.

  The identifier \<open>http\<close> is free in the function: it is resolved in the scope of the
  generated module. Evaluating \<open>http.createServer()\<close> where the module binds no \<open>http\<close>
  throws a ReferenceError inside the promise executor, which rejects the promise before
  any probe. The binding is the first argument of the model: \<open>Some listen\<close> when the
  module imports \<open>http\<close>, \<open>None\<close> when it does not.

  The result is a pair: the ports handed to \<open>server.listen\<close>, in order, and the
  settlement of the promise: \<open>Inl\<close> a rejection, \<open>Inr (Some port)\<close> a port,
  \<open>Inr None\<close> the value \<open>null\<close>.
\<close>

datatype js_error = ReferenceError

function findAvailablePort ::
  "(int \<Rightarrow> bool) option \<Rightarrow> int \<Rightarrow> int \<Rightarrow> int list \<times> (js_error + int option)" where
  "findAvailablePort http port maxPort =
     (case http of
        None \<Rightarrow> ([], Inl ReferenceError)
      | Some listen \<Rightarrow>
          if listen port then ([port], Inr (Some port))
          else if port < maxPort
            then apfst ((#) port) (findAvailablePort http (port + 1) maxPort)
            else ([port], Inr None))"
  by pat_completeness auto
termination
  by (relation "measure (\<lambda>(http, port, maxPort). nat (maxPort - port))") auto

declare findAvailablePort.simps [simp del]

text \<open>
  The binding of \<open>http\<close> in a generated module: the module's source binds it exactly
  when one of its lines is the default import of Node's \<open>http\<close> module, the only form of
  import the templates use.
\<close>

definition import_http :: string where
  \<open>import_http = ''import http from 'http';''\<close>

definition module_http :: "string \<Rightarrow> (int \<Rightarrow> bool) \<Rightarrow> (int \<Rightarrow> bool) option" where
  "module_http source listen =
     (if import_http \<in> set (split_on (CHR 0x0A) source) then Some listen else None)"

section \<open>The filesystem and the console\<close>

text \<open>
  Every path the generator uses starts with \<open>./\<close>, so it is relative to the working
  directory. A path string denotes the list of its segments, from the working directory
  down: the string is cut at every slash, empty segments and \<open>.\<close> are dropped, and
  \<open>..\<close> removes the segment before it (or stays, when there is none to remove).
\<close>

type_synonym path = "string list"

fun normalize_step :: "path \<Rightarrow> string \<Rightarrow> path" where
  "normalize_step stack seg =
     (if seg = [] \<or> seg = ''.'' then stack
      else if seg = ''..''
        then (if stack = [] \<or> last stack = ''..'' then stack @ [seg] else butlast stack)
        else stack @ [seg])"

definition resolve :: "string \<Rightarrow> path" where
  "resolve p = foldl normalize_step [] (split_on (CHR ''/'') p)"

text \<open>
  The manifest is a JavaScript object whose values are strings and objects of strings;
  the order of the keys is the order of the object literal.
\<close>

datatype json = JString string | JObject "(string \<times> json) list"

text \<open>
  What a file holds: the text of a template, or \<open>Stringify v\<close>, the text
  \<open>JSON.stringify(v, null, 2)\<close>. The serialiser is a function of the value alone, and
  \<open>JSON.parse\<close> reads the value back from its text, so the text is identified with the
  value it serialises.
\<close>

datatype content = Text string | Stringify json

datatype console_line = Log string | Error string

record world =
  dirs :: "path set"
  files :: "path \<rightharpoonup> content"
  console :: "console_line list"

datatype fs_error = ENOTDIR path | EISDIR path | ENOENT path

text \<open>
  \<open>fs.ensureDir(p)\<close> of fs-extra creates the directory and every missing ancestor, and
  succeeds on a directory that exists. It fails when the path or one of its ancestors is
  a file.
\<close>

definition ensureDir :: "string \<Rightarrow> world \<Rightarrow> fs_error + world" where
  "ensureDir p w =
     (let q = resolve p in
      if \<exists>a\<in>set (prefixes q). files w a \<noteq> None then Inl (ENOTDIR q)
      else Inr (w\<lparr>dirs := dirs w \<union> set (prefixes q)\<rparr>))"

text \<open>
  \<open>fs.writeFile(p, data)\<close> creates the file or replaces its content. It fails when the
  path is a directory, and when its parent is not a directory.
\<close>

definition writeFile :: "string \<Rightarrow> content \<Rightarrow> world \<Rightarrow> fs_error + world" where
  "writeFile p data w =
     (let q = resolve p in
      if q \<in> dirs w then Inl (EISDIR q)
      else if butlast q \<notin> dirs w then Inl (ENOENT q)
      else Inr (w\<lparr>files := (files w)(q \<mapsto> data)\<rparr>))"

text \<open>
  Up to the installation of dependencies \<open>createProject\<close> is a straight line of awaited
  calls, each of which either throws (the async function rejects, and nothing after it
  runs) or returns. The line is kept as a list of steps, in source order.
\<close>

datatype step = EnsureDir string | WriteFile string content | ConsoleLog string

fun exec_step :: "step \<Rightarrow> world \<Rightarrow> fs_error + world" where
  "exec_step (EnsureDir p) w = ensureDir p w"
| "exec_step (WriteFile p data) w = writeFile p data w"
| "exec_step (ConsoleLog s) w = Inr (w\<lparr>console := console w @ [Log s]\<rparr>)"

fun run :: "step list \<Rightarrow> world \<Rightarrow> fs_error + world" where
  "run [] w = Inr w"
| "run (s # ss) w = (case exec_step s w of Inl e \<Rightarrow> Inl e | Inr w' \<Rightarrow> run ss w')"

section \<open>The generator of src/index.js\<close>

definition dir :: "string \<Rightarrow> string" where
  "dir name = ''./'' @ name"

definition packageJson :: "string \<Rightarrow> json" where
  "packageJson name = JObject
     [(''name'', JString name),
      (''version'', JString ''1.0.0''),
      (''main'', JString ''server.js''),
      (''type'', JString ''module''),
      (''scripts'', JObject
         [(''start'', JString ''node server.js''),
          (''dev'', JString ''nodemon server.js'')]),
      (''dependencies'', JObject
         [(''express'', JString ''^4.17.1''),
          (''cors'', JString ''^2.8.5''),
          (''dotenv'', JString ''^10.0.0''),
          (''mongoose'', JString ''^6.0.0'')]),
      (''devDependencies'', JObject
         [(''nodemon'', JString ''^3.1.7'')])]"

definition createProject_steps :: "string \<Rightarrow> step list" where
  \<open>createProject_steps name =
     [EnsureDir (dir name),
      EnsureDir (dir name @ ''/public''),
      EnsureDir (dir name @ ''/src''),
      EnsureDir (dir name @ ''/src/config''),
      EnsureDir (dir name @ ''/src/controllers''),
      EnsureDir (dir name @ ''/src/models''),
      EnsureDir (dir name @ ''/src/routes''),
      EnsureDir (dir name @ ''/src/utils''),
      WriteFile (dir name @ ''/package.json'') (Stringify (packageJson name)),
      WriteFile (dir name @ ''/src/app.js'') (Text appJsContent),
      WriteFile (dir name @ ''/server.js'') (Text serverJsContent),
      WriteFile (dir name @ ''/src/config/db.js'') (Text dbJsContent),
      WriteFile (dir name @ ''/src/routes/index.js'') (Text routesIndexContent),
      WriteFile (dir name @ ''/src/routes/userRoutes.js'') (Text userRoutesContent),
      ConsoleLog (''Project '' @ name @ '' created successfully!''),
      ConsoleLog
        ''You can now navigate to the project directory and run "npm install" to install dependencies.'']\<close>

definition createProject :: "string \<Rightarrow> world \<Rightarrow> fs_error + world" where
  "createProject name w = run (createProject_steps name) w"

section \<open>The generator of src/unnamed/part_000\<close>

definition packageJson_part_000 :: "string \<Rightarrow> json" where
  "packageJson_part_000 name = JObject
     [(''name'', JString name),
      (''version'', JString ''1.0.0''),
      (''main'', JString ''server.js''),
      (''type'', JString ''module''),
      (''scripts'', JObject
         [(''start'', JString ''node server.js''),
          (''run'', JString ''nodemon server.js'')]),
      (''dependencies'', JObject
         [(''express'', JString ''^4.17.1''),
          (''cors'', JString ''^2.8.5''),
          (''dotenv'', JString ''^10.0.0''),
          (''mongoose'', JString ''^6.0.0'')]),
      (''devDependencies'', JObject
         [(''nodemon'', JString ''^3.1.7'')])]"

definition createProject_part_000_steps :: "string \<Rightarrow> step list" where
  "createProject_part_000_steps name =
     [EnsureDir (dir name),
      WriteFile (dir name @ ''/package.json'') (Stringify (packageJson_part_000 name)),
      WriteFile (dir name @ ''/server.js'') (Text serverJsContent_part_000),
      EnsureDir (dir name @ ''/public''),
      EnsureDir (dir name @ ''/src''),
      EnsureDir (dir name @ ''/src/config''),
      EnsureDir (dir name @ ''/src/controllers''),
      EnsureDir (dir name @ ''/src/models''),
      EnsureDir (dir name @ ''/src/routes''),
      EnsureDir (dir name @ ''/src/utils''),
      WriteFile (dir name @ ''/src/config/db.js'') (Text dbJsContent_part_000),
      WriteFile (dir name @ ''/src/routes/index.js'') (Text routesIndexContent_part_000),
      WriteFile (dir name @ ''/src/routes/userRoutes.js'') (Text userRoutesContent_part_000),
      ConsoleLog (''Project '' @ name @ '' created successfully!''),
      ConsoleLog ''Installing dependencies...'']"

text \<open>
  The last statement of this variant runs \<open>cd ${dir} && npm install\<close> in a shell, inside
  \<open>try\<close>. What the command does is outside the program: \<open>execPromise\<close> is a parameter that
  maps the command line and the world to the world the command leaves and, when the
  command fails, the \<open>stderr\<close> of the error it rejects with. The \<open>catch\<close> block logs and
  returns, so the function resolves on both branches.
\<close>

definition createProject_part_000 ::
  "(string \<Rightarrow> world \<Rightarrow> string option \<times> world) \<Rightarrow> string \<Rightarrow> world \<Rightarrow> fs_error + world" where
  "createProject_part_000 execPromise name w =
     (case run (createProject_part_000_steps name) w of
        Inl e \<Rightarrow> Inl e
      | Inr w1 \<Rightarrow>
          (case execPromise (''cd '' @ dir name @ '' && npm install'') w1 of
             (None, w2) \<Rightarrow>
               Inr (w2\<lparr>console := console w2 @ [Log ''Dependencies installed successfully!'']\<rparr>)
           | (Some stderr, w2) \<Rightarrow>
               Inr (w2\<lparr>console := console w2 @
                      [Error (''Error installing dependencies: '' @ stderr)]\<rparr>)))"

text \<open>
  The command's action awaits \<open>createProject\<close>, and neither source calls \<open>process.exit\<close>
  or sets \<open>process.exitCode\<close>: when the promise resolves the process ends with status 0.
  A rejection is not handled (\<open>program.parse\<close> does not wait for the action), which
  ends the process with status 1 (Node 15 and later).
\<close>

definition exit_status :: "fs_error + world \<Rightarrow> nat" where
  "exit_status r = (case r of Inl e \<Rightarrow> 1 | Inr w \<Rightarrow> 0)"

text \<open>
  A name is valid when it is one path segment that names an entry: not empty, without a
  slash, and neither \<open>.\<close> nor \<open>..\<close>. Neither source checks the name.
\<close>

definition valid_name :: "string \<Rightarrow> bool" where
  "valid_name name \<longleftrightarrow> name \<noteq> [] \<and> CHR ''/'' \<notin> set name \<and> name \<noteq> ''.'' \<and> name \<noteq> ''..''"

definition empty_world :: world where
  "empty_world = \<lparr>dirs = {[]}, files = Map.empty, console = []\<rparr>"

section \<open>Reading the manifest, the order of the steps, the worlds that admit a run\<close>



text \<open>
  \<open>parents_ensured ensured steps\<close> walks a list of steps with the set of directories that
  the earlier \<open>EnsureDir\<close> steps have ensured (each with its ancestors), and checks at every
  \<open>WriteFile\<close> that the parent of the written path is among them.
\<close>

fun parents_ensured :: "path set \<Rightarrow> step list \<Rightarrow> bool" where
  "parents_ensured ensured [] = True"
| "parents_ensured ensured (EnsureDir p # ss) =
     parents_ensured (ensured \<union> set (prefixes (resolve p))) ss"
| "parents_ensured ensured (WriteFile p data # ss) =
     (butlast (resolve p) \<in> ensured \<and> parents_ensured ensured ss)"
| "parents_ensured ensured (ConsoleLog s # ss) = parents_ensured ensured ss"

text \<open>
  The worlds in which the steps of src/index.js all succeed, for the project directory
  \<open>r\<close>: no file stands where a directory is to be ensured, and no directory stands where
  a file is to be written. \<open>admits_part_000\<close> is the same for src/unnamed/part_000, which
  writes no src/app.js.
\<close>

definition admits :: "path \<Rightarrow> world \<Rightarrow> bool" where
  "admits r w \<longleftrightarrow>
     \<not> (\<exists>a\<in>set (prefixes r). files w a \<noteq> None) \<and>
     files w (r @ [''public'']) = None \<and>
     files w (r @ [''src'']) = None \<and>
     files w (r @ [''src'', ''config'']) = None \<and>
     files w (r @ [''src'', ''controllers'']) = None \<and>
     files w (r @ [''src'', ''models'']) = None \<and>
     files w (r @ [''src'', ''routes'']) = None \<and>
     files w (r @ [''src'', ''utils'']) = None \<and>
     r @ [''package.json''] \<notin> dirs w \<and>
     r @ [''src'', ''app.js''] \<notin> dirs w \<and>
     r @ [''server.js''] \<notin> dirs w \<and>
     r @ [''src'', ''config'', ''db.js''] \<notin> dirs w \<and>
     r @ [''src'', ''routes'', ''index.js''] \<notin> dirs w \<and>
     r @ [''src'', ''routes'', ''userRoutes.js''] \<notin> dirs w"

definition admits_part_000 :: "path \<Rightarrow> world \<Rightarrow> bool" where
  "admits_part_000 r w \<longleftrightarrow>
     \<not> (\<exists>a\<in>set (prefixes r). files w a \<noteq> None) \<and>
     files w (r @ [''public'']) = None \<and>
     files w (r @ [''src'']) = None \<and>
     files w (r @ [''src'', ''config'']) = None \<and>
     files w (r @ [''src'', ''controllers'']) = None \<and>
     files w (r @ [''src'', ''models'']) = None \<and>
     files w (r @ [''src'', ''routes'']) = None \<and>
     files w (r @ [''src'', ''utils'']) = None \<and>
     r @ [''package.json''] \<notin> dirs w \<and>
     r @ [''server.js''] \<notin> dirs w \<and>
     r @ [''src'', ''config'', ''db.js''] \<notin> dirs w \<and>
     r @ [''src'', ''routes'', ''index.js''] \<notin> dirs w \<and>
     r @ [''src'', ''routes'', ''userRoutes.js''] \<notin> dirs w"

section \<open>Facts about the text helpers\<close>

lemma split_on_nonempty: "split_on sep s \<noteq> []"
  by (induction s) (auto split: list.splits)

lemma split_on_no_sep: "sep \<notin> set s \<Longrightarrow> split_on sep s = [s]"
  by (induction s) auto

lemma split_on_append:
  "sep \<notin> set a \<Longrightarrow> split_on sep (a @ sep # b) = a # split_on sep b"
  by (induction a) auto

lemma split_join_lines:
  "ls \<noteq> [] \<Longrightarrow> \<forall>l\<in>set ls. CHR 0x0A \<notin> set l \<Longrightarrow> split_on (CHR 0x0A) (join_lines ls) = ls"
proof (induction ls rule: join_lines.induct)
  case 1 then show ?case by simp
next
  case (2 l) then show ?case by (simp add: split_on_no_sep)
next
  case (3 l m ls)
  then show ?case by (simp add: split_on_append)
qed

lemma module_http_index_js: "module_http serverJsContent listen = Some listen"
  unfolding module_http_def serverJsContent_def import_http_def
  by (subst split_join_lines) simp_all

lemma module_http_part_000: "module_http serverJsContent_part_000 listen = None"
  unfolding module_http_def serverJsContent_part_000_def import_http_def
  by (subst split_join_lines) simp_all

section \<open>Facts about the available-port finder\<close>

lemma findAvailablePort_free:
  "listen p \<Longrightarrow> findAvailablePort (Some listen) p m = ([p], Inr (Some p))"
  by (simp add: findAvailablePort.simps)

lemma findAvailablePort_busy:
  "\<not> listen p \<Longrightarrow> p < m \<Longrightarrow>
   findAvailablePort (Some listen) p m = apfst ((#) p) (findAvailablePort (Some listen) (p + 1) m)"
  by (subst findAvailablePort.simps) simp

lemma findAvailablePort_last:
  "\<not> listen p \<Longrightarrow> \<not> p < m \<Longrightarrow> findAvailablePort (Some listen) p m = ([p], Inr None)"
  by (subst findAvailablePort.simps) simp

lemma findAvailablePort_unbound: "findAvailablePort None p m = ([], Inl ReferenceError)"
  by (simp add: findAvailablePort.simps)


lemma findAvailablePort_exhausted:
  "p \<le> m \<Longrightarrow> \<forall>j. p \<le> j \<and> j \<le> m \<longrightarrow> \<not> listen j \<Longrightarrow>
   findAvailablePort (Some listen) p m = ([p..m], Inr None)"
proof (induction "nat (m - p)" arbitrary: p)
  case 0
  then have "p = m" by simp
  with 0 show ?case by (simp add: findAvailablePort_last)
next
  case (Suc n)
  then have lt: "p < m" and n: "n = nat (m - (p + 1))" by auto
  from Suc.prems have busy: "\<not> listen p" by simp
  have "findAvailablePort (Some listen) (p + 1) m = ([p + 1..m], Inr None)"
    using Suc.hyps(1) [OF n] lt Suc.prems(2) by simp
  with lt busy show ?case by (simp add: findAvailablePort_busy upto_rec1)
qed






text \<open>
  Claim C3, on src/index.js: when every port from \<open>p\<close> to \<open>maxPort\<close> is occupied, the
  finder of the server.js that src/index.js generates probes each of them once and
  resolves to \<open>null\<close>.
\<close>

lemma findAvailablePort_index_js_exhausted:
  "p \<le> maxPort \<Longrightarrow> \<forall>j. p \<le> j \<and> j \<le> maxPort \<longrightarrow> \<not> listen j \<Longrightarrow>
   findAvailablePort (module_http serverJsContent listen) p maxPort = ([p..maxPort], Inr None)"
  by (simp add: module_http_index_js findAvailablePort_exhausted)

text \<open>
  On src/unnamed/part_000 the same function never reaches a probe: the server template
  of that file uses \<open>http.createServer()\<close> and has no import of \<open>http\<close>, so every call
  rejects with a ReferenceError, whatever the ports are.
\<close>

lemma findAvailablePort_part_000_rejects:
  "findAvailablePort (module_http serverJsContent_part_000 listen) p maxPort =
     ([], Inl ReferenceError)"
  by (simp add: module_http_part_000 findAvailablePort_unbound)

text \<open>
  Claim C3, evaluated with port 3000 occupied and the ceiling at 3000: the server.js of
  src/unnamed/part_000 rejects without a probe, where the server.js of src/index.js
  probes 3000 and resolves to \<open>null\<close>.
\<close>

theorem findAvailablePort_part_000_occupied:
  "findAvailablePort (module_http serverJsContent_part_000 (\<lambda>port. False)) 3000 3000 =
     ([], Inl ReferenceError) \<and>
   findAvailablePort (module_http serverJsContent (\<lambda>port. False)) 3000 3000 =
     ([3000], Inr None)"
  by (simp add: module_http_part_000 module_http_index_js findAvailablePort_unbound
      findAvailablePort_last)



text \<open>
  Claim C10. The ceiling is read only after a failed probe. When the probe of \<open>p\<close>
  succeeds the finder resolves to \<open>p\<close> after that one probe, whatever \<open>maxPort\<close> is, also
  when \<open>maxPort < p\<close>; when the probe of \<open>p\<close> fails and \<open>maxPort \<le> p\<close>, no retry is made and
  the result is \<open>null\<close>. (A probe is made only where the module binds \<open>http\<close>.)
\<close>

theorem findAvailablePort_ceiling_after_probe:
  "(listen p \<longrightarrow> findAvailablePort (Some listen) p maxPort = ([p], Inr (Some p))) \<and>
   (\<not> listen p \<and> maxPort \<le> p \<longrightarrow> findAvailablePort (Some listen) p maxPort = ([p], Inr None))"
  by (simp add: findAvailablePort_free findAvailablePort_last)

theorem findAvailablePort_ceiling_after_probe_witness:
  "(\<lambda>x::int. True) 3000 \<and> (80::int) < 3000 \<and>
   findAvailablePort (Some (\<lambda>x. True)) 3000 80 = ([3000], Inr (Some 3000)) \<and>
   \<not> (3000 \<le> (3000::int) \<and> (3000::int) \<le> 80)"
  using findAvailablePort_ceiling_after_probe [of "\<lambda>x. True" 3000 80]
  by simp

section \<open>Facts about paths and steps\<close>

lemma split_on_append_sep:
  "split_on sep (a @ sep # b) = split_on sep a @ split_on sep b"
proof (induction a)
  case Nil
  show ?case by simp
next
  case (Cons c a)
  obtain l ls where "split_on sep a = l # ls"
    using split_on_nonempty [of sep a] by (cases "split_on sep a") auto
  with Cons show ?case by simp
qed

lemma resolve_append:
  "resolve (a @ CHR ''/'' # b) = foldl normalize_step (resolve a) (split_on (CHR ''/'') b)"
  by (simp add: resolve_def split_on_append_sep)

lemma resolve_under:
  "resolve (dir name @ CHR ''/'' # b) =
     foldl normalize_step (resolve (dir name)) (split_on (CHR ''/'') b)"
  by (rule resolve_append)

lemma resolve_dir_valid: "valid_name n \<Longrightarrow> resolve (dir n) = [n]"
  by (simp add: resolve_def dir_def valid_name_def split_on_no_sep)

lemma not_prefix_longer [simp]: "\<not> prefix (r @ x # xs) r"
  using prefix_length_le [of "r @ x # xs" r] by auto

lemma ensureDir_Inr:
  "ensureDir p w = Inr w' \<longleftrightarrow>
     (\<forall>a\<in>set (prefixes (resolve p)). files w a = None) \<and>
     w' = w\<lparr>dirs := dirs w \<union> set (prefixes (resolve p))\<rparr>"
  by (auto simp: ensureDir_def Let_def)

lemma writeFile_Inr:
  "writeFile p c w = Inr w' \<longleftrightarrow>
     resolve p \<notin> dirs w \<and> butlast (resolve p) \<in> dirs w \<and>
     w' = w\<lparr>files := (files w)(resolve p \<mapsto> c)\<rparr>"
  by (auto simp: writeFile_def Let_def)

lemma run_Cons_Inr:
  "run (s # ss) w = Inr w' \<longleftrightarrow> (\<exists>v. exec_step s w = Inr v \<and> run ss v = Inr w')"
  by (cases "exec_step s w") auto

lemmas run_simps = run_Cons_Inr ensureDir_Inr writeFile_Inr resolve_under
  prefixes_append butlast_append

section \<open>What a run of the steps does\<close>

lemma createProject_InrD:
  assumes r: "resolve (dir name) = r" and run: "createProject name w = Inr w'"
  shows \<open>admits r w \<and>
    dirs w' = dirs w \<union> set (prefixes r) \<union>
           {r @ [''public''], r @ [''src''], r @ [''src'', ''config''],
            r @ [''src'', ''controllers''], r @ [''src'', ''models''],
            r @ [''src'', ''routes''], r @ [''src'', ''utils'']} \<and>
    files w' = (files w)
           (r @ [''package.json''] \<mapsto> Stringify (packageJson name),
            r @ [''src'', ''app.js''] \<mapsto> Text appJsContent,
            r @ [''server.js''] \<mapsto> Text serverJsContent,
            r @ [''src'', ''config'', ''db.js''] \<mapsto> Text dbJsContent,
            r @ [''src'', ''routes'', ''index.js''] \<mapsto> Text routesIndexContent,
            r @ [''src'', ''routes'', ''userRoutes.js''] \<mapsto> Text userRoutesContent) \<and>
    console w' = console w @
           [Log (''Project '' @ name @ '' created successfully!''),
            Log ''You can now navigate to the project directory and run "npm install" to install dependencies.'']\<close>
proof -
  have "run (createProject_steps name) w = Inr w'"
    using run by (simp add: createProject_def)
  then show ?thesis
    unfolding createProject_steps_def
    by (auto simp add: run_simps r admits_def simp del: run.simps(2))
qed

lemma createProject_succeeds:
  assumes r: "resolve (dir name) = r" and pre: "admits r w"
  shows "\<exists>w'. createProject name w = Inr w'"
  using pre unfolding createProject_def createProject_steps_def admits_def
  by (simp add: run_simps r del: run.simps(2))

lemma part_000_InrD:
  assumes r: "resolve (dir name) = r" and run: "run (createProject_part_000_steps name) w = Inr w'"
  shows "admits_part_000 r w \<and>
    dirs w' = dirs w \<union> set (prefixes r) \<union>
           {r @ [''public''], r @ [''src''], r @ [''src'', ''config''],
            r @ [''src'', ''controllers''], r @ [''src'', ''models''],
            r @ [''src'', ''routes''], r @ [''src'', ''utils'']} \<and>
    files w' = (files w)
           (r @ [''package.json''] \<mapsto> Stringify (packageJson_part_000 name),
            r @ [''server.js''] \<mapsto> Text serverJsContent_part_000,
            r @ [''src'', ''config'', ''db.js''] \<mapsto> Text dbJsContent_part_000,
            r @ [''src'', ''routes'', ''index.js''] \<mapsto> Text routesIndexContent_part_000,
            r @ [''src'', ''routes'', ''userRoutes.js''] \<mapsto> Text userRoutesContent_part_000) \<and>
    console w' = console w @
           [Log (''Project '' @ name @ '' created successfully!''),
            Log ''Installing dependencies...'']"
  using run unfolding createProject_part_000_steps_def
  by (auto simp add: run_simps r admits_part_000_def simp del: run.simps(2))

lemma part_000_succeeds:
  assumes r: "resolve (dir name) = r" and pre: "admits_part_000 r w"
  shows "\<exists>w'. run (createProject_part_000_steps name) w = Inr w'"
  using pre unfolding createProject_part_000_steps_def admits_part_000_def
  by (auto simp add: run_simps r simp del: run.simps(2))

section \<open>The manifest\<close>


section \<open>Directories before files\<close>

lemma parents_ensured_nth:
  "parents_ensured E ss \<Longrightarrow> i < length ss \<Longrightarrow> ss ! i = WriteFile p c \<Longrightarrow>
   butlast (resolve p) \<in> E \<or>
   (\<exists>j<i. \<exists>d. ss ! j = EnsureDir d \<and> prefix (butlast (resolve p)) (resolve d))"
proof (induction E ss arbitrary: i rule: parents_ensured.induct)
  case (1 ensured)
  then show ?case by simp
next
  case (2 ensured q ss)
  show ?case
  proof (cases i)
    case 0
    with 2 show ?thesis by simp
  next
    case (Suc k)
    with 2 have "butlast (resolve p) \<in> ensured \<union> set (prefixes (resolve q)) \<or>
      (\<exists>j<k. \<exists>d. ss ! j = EnsureDir d \<and> prefix (butlast (resolve p)) (resolve d))"
      by simp
    then show ?thesis
    proof (elim disjE exE conjE)
      assume "butlast (resolve p) \<in> ensured \<union> set (prefixes (resolve q))"
      then show ?thesis using Suc by (auto intro: exI [of _ 0])
    next
      fix j d assume "j < k" "ss ! j = EnsureDir d" "prefix (butlast (resolve p)) (resolve d)"
      then show ?thesis using Suc by (auto intro!: exI [of _ "Suc j"])
    qed
  qed
next
  case (3 ensured q data ss)
  show ?case
  proof (cases i)
    case 0
    with 3 show ?thesis by simp
  next
    case (Suc k)
    with 3 have "butlast (resolve p) \<in> ensured \<or>
      (\<exists>j<k. \<exists>d. ss ! j = EnsureDir d \<and> prefix (butlast (resolve p)) (resolve d))"
      by simp
    then show ?thesis
    proof (elim disjE exE conjE)
      assume "butlast (resolve p) \<in> ensured"
      then show ?thesis by simp
    next
      fix j d assume "j < k" "ss ! j = EnsureDir d" "prefix (butlast (resolve p)) (resolve d)"
      then show ?thesis using Suc by (auto intro!: exI [of _ "Suc j"])
    qed
  qed
next
  case (4 ensured s ss)
  show ?case
  proof (cases i)
    case 0
    with 4 show ?thesis by simp
  next
    case (Suc k)
    with 4 have "butlast (resolve p) \<in> ensured \<or>
      (\<exists>j<k. \<exists>d. ss ! j = EnsureDir d \<and> prefix (butlast (resolve p)) (resolve d))"
      by simp
    then show ?thesis
    proof (elim disjE exE conjE)
      assume "butlast (resolve p) \<in> ensured"
      then show ?thesis by simp
    next
      fix j d assume "j < k" "ss ! j = EnsureDir d" "prefix (butlast (resolve p)) (resolve d)"
      then show ?thesis using Suc by (auto intro!: exI [of _ "Suc j"])
    qed
  qed
qed

lemma run_no_ENOENT:
  "parents_ensured E ss \<Longrightarrow> E \<subseteq> dirs w \<Longrightarrow> run ss w \<noteq> Inl (ENOENT q)"
proof (induction E ss arbitrary: w rule: parents_ensured.induct)
  case (1 ensured)
  then show ?case by simp
next
  case (2 ensured p ss)
  show ?case
  proof (cases "ensureDir p w")
    case (Inl e)
    then show ?thesis by (auto simp: ensureDir_def Let_def split: if_splits)
  next
    case (Inr v)
    then have "dirs v = dirs w \<union> set (prefixes (resolve p))"
      by (simp add: ensureDir_Inr)
    with 2 have "run ss v \<noteq> Inl (ENOENT q)" by auto
    with Inr show ?thesis by simp
  qed
next
  case (3 ensured p data ss)
  show ?case
  proof (cases "writeFile p data w")
    case (Inl e)
    with 3 show ?thesis by (auto simp: writeFile_def Let_def split: if_splits)
  next
    case (Inr v)
    then have "dirs v = dirs w" by (simp add: writeFile_Inr)
    with 3 have "run ss v \<noteq> Inl (ENOENT q)" by auto
    with Inr show ?thesis by simp
  qed
next
  case (4 ensured s ss)
  then show ?case by simp
qed

lemma parents_ensured_index_js: "parents_ensured {} (createProject_steps name)"
  by (simp add: createProject_steps_def resolve_under prefixes_append butlast_append)

lemma parents_ensured_part_000: "parents_ensured {} (createProject_part_000_steps name)"
  by (simp add: createProject_part_000_steps_def resolve_under prefixes_append butlast_append)

text \<open>
  Claim C9. In both generators, for every name, each \<open>WriteFile\<close> step comes after an
  \<open>EnsureDir\<close> step of the same run that ensures the parent of the written path (as the
  ensured directory itself or as one of its ancestors; for the files at the project root
  that step is the first one). So no run of either generator fails because the parent
  of a written file is missing.
\<close>

theorem writes_after_parents:
  "(\<forall>i p c. i < length (createProject_steps name) \<and>
       createProject_steps name ! i = WriteFile p c \<longrightarrow>
       (\<exists>j<i. \<exists>d. createProject_steps name ! j = EnsureDir d \<and>
          prefix (butlast (resolve p)) (resolve d))) \<and>
   (\<forall>i p c. i < length (createProject_part_000_steps name) \<and>
       createProject_part_000_steps name ! i = WriteFile p c \<longrightarrow>
       (\<exists>j<i. \<exists>d. createProject_part_000_steps name ! j = EnsureDir d \<and>
          prefix (butlast (resolve p)) (resolve d))) \<and>
   (\<forall>w q. createProject name w \<noteq> Inl (ENOENT q)) \<and>
   (\<forall>w q execPromise. createProject_part_000 execPromise name w \<noteq> Inl (ENOENT q))"
proof (intro conjI allI impI)
  fix i p c
  assume "i < length (createProject_steps name) \<and> createProject_steps name ! i = WriteFile p c"
  with parents_ensured_nth [OF parents_ensured_index_js, of i name p c]
  show "\<exists>j<i. \<exists>d. createProject_steps name ! j = EnsureDir d \<and>
          prefix (butlast (resolve p)) (resolve d)"
    by simp
next
  fix i p c
  assume "i < length (createProject_part_000_steps name) \<and>
    createProject_part_000_steps name ! i = WriteFile p c"
  with parents_ensured_nth [OF parents_ensured_part_000, of i name p c]
  show "\<exists>j<i. \<exists>d. createProject_part_000_steps name ! j = EnsureDir d \<and>
          prefix (butlast (resolve p)) (resolve d)"
    by simp
next
  fix w q
  show "createProject name w \<noteq> Inl (ENOENT q)"
    unfolding createProject_def
    by (rule run_no_ENOENT [OF parents_ensured_index_js]) simp
next
  fix w q execPromise
  have "run (createProject_part_000_steps name) w \<noteq> Inl (ENOENT q)"
    by (rule run_no_ENOENT [OF parents_ensured_part_000]) simp
  then show "createProject_part_000 execPromise name w \<noteq> Inl (ENOENT q)"
    by (auto simp: createProject_part_000_def split: sum.splits option.splits prod.splits)
qed

theorem writes_after_parents_witness:
  "(8::nat) < length (createProject_steps ''demo'') \<and>
   createProject_steps ''demo'' ! 8 =
     WriteFile ''./demo/package.json'' (Stringify (packageJson ''demo'')) \<and>
   (\<exists>j<8. \<exists>d. createProject_steps ''demo'' ! j = EnsureDir d \<and>
      prefix (butlast (resolve ''./demo/package.json'')) (resolve d))"
proof -
  have step: "(8::nat) < length (createProject_steps ''demo'') \<and>
    createProject_steps ''demo'' ! 8 =
      WriteFile ''./demo/package.json'' (Stringify (packageJson ''demo''))"
    by (simp add: createProject_steps_def dir_def)
  with writes_after_parents [of "''demo''"] show ?thesis by blast
qed

section \<open>The generated tree\<close>

lemma valid_demo: "valid_name ''demo''"
  by (simp add: valid_name_def)

lemma admits_fresh:
  assumes "files w [] = None" and "\<forall>p. prefix [n] p \<longrightarrow> p \<notin> dirs w \<and> files w p = None"
  shows "admits [n] w" and "admits_part_000 [n] w"
  using assms by (simp_all add: admits_def admits_part_000_def)

lemma fresh_dirs:
  assumes "\<forall>p. prefix [n] p \<longrightarrow> p \<notin> dirs w \<and> files w p = None"
  shows "dirs w \<inter> {p. prefix [n] p} = {}" and "dom (files w) \<inter> {p. prefix [n] p} = {}"
  using assms by (auto simp: domIff)

lemma inside_dirs:
  assumes "dirs w \<inter> {p. prefix [n] p} = {}"
    and "dirs w' = dirs w \<union> set (prefixes [n]) \<union>
           {[n] @ [''public''], [n] @ [''src''], [n] @ [''src'', ''config''],
            [n] @ [''src'', ''controllers''], [n] @ [''src'', ''models''],
            [n] @ [''src'', ''routes''], [n] @ [''src'', ''utils'']}"
  shows "{p \<in> dirs w'. prefix [n] p} =
              {[n], [n, ''public''], [n, ''src''], [n, ''src'', ''config''],
               [n, ''src'', ''controllers''], [n, ''src'', ''models''],
               [n, ''src'', ''routes''], [n, ''src'', ''utils'']}"
proof -
  have "{p \<in> dirs w'. prefix [n] p} = dirs w' \<inter> {p. prefix [n] p}" by blast
  then show ?thesis
    unfolding assms(2) using assms(1) by (simp add: Int_Un_distrib2 insert_commute)
qed

lemma inside_files:
  assumes "dom (files w) \<inter> {p. prefix [n] p} = {}"
    and "dom (files w') = dom (files w) \<union> A" and "A \<subseteq> {p. prefix [n] p}"
  shows "{p. prefix [n] p \<and> files w' p \<noteq> None} = A"
proof -
  have "{p. prefix [n] p \<and> files w' p \<noteq> None} = dom (files w') \<inter> {p. prefix [n] p}"
    by (auto simp: domIff)
  with assms show ?thesis by blast
qed

lemma resolve_demo: "resolve (dir ''demo'') = [''demo'']"
  by (rule resolve_dir_valid [OF valid_demo])

lemma fresh_empty_world:
  "files empty_world [] = None"
  "\<forall>p. prefix [n] p \<longrightarrow> p \<notin> dirs empty_world \<and> files empty_world p = None"
  by (auto simp: empty_world_def)

text \<open>
  Claim C2, as amended. For every valid project name \<open>n\<close> and every filesystem in which
  the working directory is not a file and nothing exists at or below \<open>./n\<close>, the steps of
  both generators succeed, and afterwards the directories at or below \<open>./n\<close> are exactly
  \<open>n\<close>, \<open>n/public\<close>, \<open>n/src\<close>, \<open>n/src/config\<close>, \<open>n/src/controllers\<close>, \<open>n/src/models\<close>,
  \<open>n/src/routes\<close> and \<open>n/src/utils\<close>. The files below \<open>./n\<close> are exactly \<open>package.json\<close>,
  \<open>server.js\<close>, \<open>src/config/db.js\<close>, \<open>src/routes/index.js\<close> and \<open>src/routes/userRoutes.js\<close>
  for src/unnamed/part_000 (before it runs \<open>npm install\<close>), and these five and
  \<open>src/app.js\<close> for src/index.js. So \<open>public\<close>, \<open>src/controllers\<close>, \<open>src/models\<close> and
  \<open>src/utils\<close> are empty.
\<close>

theorem createProject_tree:
  assumes "valid_name n" and "files w [] = None"
    and "\<forall>p. prefix [n] p \<longrightarrow> p \<notin> dirs w \<and> files w p = None"
  shows "(\<exists>w'. createProject n w = Inr w' \<and>
            {p \<in> dirs w'. prefix [n] p} =
              {[n], [n, ''public''], [n, ''src''], [n, ''src'', ''config''],
               [n, ''src'', ''controllers''], [n, ''src'', ''models''],
               [n, ''src'', ''routes''], [n, ''src'', ''utils'']} \<and>
            {p. prefix [n] p \<and> files w' p \<noteq> None} =
              {[n, ''package.json''], [n, ''server.js''], [n, ''src'', ''app.js''],
               [n, ''src'', ''config'', ''db.js''], [n, ''src'', ''routes'', ''index.js''],
               [n, ''src'', ''routes'', ''userRoutes.js'']}) \<and>
         (\<exists>w'. run (createProject_part_000_steps n) w = Inr w' \<and>
            {p \<in> dirs w'. prefix [n] p} =
              {[n], [n, ''public''], [n, ''src''], [n, ''src'', ''config''],
               [n, ''src'', ''controllers''], [n, ''src'', ''models''],
               [n, ''src'', ''routes''], [n, ''src'', ''utils'']} \<and>
            {p. prefix [n] p \<and> files w' p \<noteq> None} =
              {[n, ''package.json''], [n, ''server.js''],
               [n, ''src'', ''config'', ''db.js''], [n, ''src'', ''routes'', ''index.js''],
               [n, ''src'', ''routes'', ''userRoutes.js'']})"
proof -
  have r: "resolve (dir n) = [n]" using assms(1) by (rule resolve_dir_valid)
  note fresh = fresh_dirs [OF assms(3)]
  have index: "\<exists>w'. createProject n w = Inr w' \<and>
            {p \<in> dirs w'. prefix [n] p} =
              {[n], [n, ''public''], [n, ''src''], [n, ''src'', ''config''],
               [n, ''src'', ''controllers''], [n, ''src'', ''models''],
               [n, ''src'', ''routes''], [n, ''src'', ''utils'']} \<and>
            {p. prefix [n] p \<and> files w' p \<noteq> None} =
              {[n, ''package.json''], [n, ''server.js''], [n, ''src'', ''app.js''],
               [n, ''src'', ''config'', ''db.js''], [n, ''src'', ''routes'', ''index.js''],
               [n, ''src'', ''routes'', ''userRoutes.js'']}"
  proof -
    from createProject_succeeds [OF r admits_fresh(1) [OF assms(2,3)]]
    obtain w' where run: "createProject n w = Inr w'" by blast
    note post = createProject_InrD [OF r run]
    have d: "{p \<in> dirs w'. prefix [n] p} =
              {[n], [n, ''public''], [n, ''src''], [n, ''src'', ''config''],
               [n, ''src'', ''controllers''], [n, ''src'', ''models''],
               [n, ''src'', ''routes''], [n, ''src'', ''utils'']}"
      using post by (intro inside_dirs [OF fresh(1)]) simp
    have "dom (files w') = dom (files w) \<union>
              {[n, ''package.json''], [n, ''server.js''], [n, ''src'', ''app.js''],
               [n, ''src'', ''config'', ''db.js''], [n, ''src'', ''routes'', ''index.js''],
               [n, ''src'', ''routes'', ''userRoutes.js'']}"
      using post by (simp add: insert_commute)
    then have f: "{p. prefix [n] p \<and> files w' p \<noteq> None} =
              {[n, ''package.json''], [n, ''server.js''], [n, ''src'', ''app.js''],
               [n, ''src'', ''config'', ''db.js''], [n, ''src'', ''routes'', ''index.js''],
               [n, ''src'', ''routes'', ''userRoutes.js'']}"
      by (rule inside_files [OF fresh(2)]) simp
    from run d f show ?thesis by blast
  qed
  have part: "\<exists>w'. run (createProject_part_000_steps n) w = Inr w' \<and>
            {p \<in> dirs w'. prefix [n] p} =
              {[n], [n, ''public''], [n, ''src''], [n, ''src'', ''config''],
               [n, ''src'', ''controllers''], [n, ''src'', ''models''],
               [n, ''src'', ''routes''], [n, ''src'', ''utils'']} \<and>
            {p. prefix [n] p \<and> files w' p \<noteq> None} =
              {[n, ''package.json''], [n, ''server.js''],
               [n, ''src'', ''config'', ''db.js''], [n, ''src'', ''routes'', ''index.js''],
               [n, ''src'', ''routes'', ''userRoutes.js'']}"
  proof -
    from part_000_succeeds [OF r admits_fresh(2) [OF assms(2,3)]]
    obtain w' where run: "run (createProject_part_000_steps n) w = Inr w'" by blast
    note post = part_000_InrD [OF r run]
    have d: "{p \<in> dirs w'. prefix [n] p} =
              {[n], [n, ''public''], [n, ''src''], [n, ''src'', ''config''],
               [n, ''src'', ''controllers''], [n, ''src'', ''models''],
               [n, ''src'', ''routes''], [n, ''src'', ''utils'']}"
      using post by (intro inside_dirs [OF fresh(1)]) simp
    have "dom (files w') = dom (files w) \<union>
              {[n, ''package.json''], [n, ''server.js''],
               [n, ''src'', ''config'', ''db.js''], [n, ''src'', ''routes'', ''index.js''],
               [n, ''src'', ''routes'', ''userRoutes.js'']}"
      using post by (simp add: insert_commute)
    then have f: "{p. prefix [n] p \<and> files w' p \<noteq> None} =
              {[n, ''package.json''], [n, ''server.js''],
               [n, ''src'', ''config'', ''db.js''], [n, ''src'', ''routes'', ''index.js''],
               [n, ''src'', ''routes'', ''userRoutes.js'']}"
      by (rule inside_files [OF fresh(2)]) simp
    from run d f show ?thesis by blast
  qed
  from index part show ?thesis by (rule conjI)
qed

theorem createProject_tree_witness:
  "valid_name ''demo'' \<and> files empty_world [] = None \<and>
   ((\<exists>w'. createProject ''demo'' empty_world = Inr w' \<and>
            {p \<in> dirs w'. prefix [''demo''] p} =
              {[''demo''], [''demo'', ''public''], [''demo'', ''src''], [''demo'', ''src'', ''config''],
               [''demo'', ''src'', ''controllers''], [''demo'', ''src'', ''models''],
               [''demo'', ''src'', ''routes''], [''demo'', ''src'', ''utils'']} \<and>
            {p. prefix [''demo''] p \<and> files w' p \<noteq> None} =
              {[''demo'', ''package.json''], [''demo'', ''server.js''], [''demo'', ''src'', ''app.js''],
               [''demo'', ''src'', ''config'', ''db.js''], [''demo'', ''src'', ''routes'', ''index.js''],
               [''demo'', ''src'', ''routes'', ''userRoutes.js'']}) \<and>
    (\<exists>w'. run (createProject_part_000_steps ''demo'') empty_world = Inr w' \<and>
            {p \<in> dirs w'. prefix [''demo''] p} =
              {[''demo''], [''demo'', ''public''], [''demo'', ''src''], [''demo'', ''src'', ''config''],
               [''demo'', ''src'', ''controllers''], [''demo'', ''src'', ''models''],
               [''demo'', ''src'', ''routes''], [''demo'', ''src'', ''utils'']} \<and>
            {p. prefix [''demo''] p \<and> files w' p \<noteq> None} =
              {[''demo'', ''package.json''], [''demo'', ''server.js''],
               [''demo'', ''src'', ''config'', ''db.js''], [''demo'', ''src'', ''routes'', ''index.js''],
               [''demo'', ''src'', ''routes'', ''userRoutes.js'']}))"
  by (rule conjI [OF valid_demo conjI [OF fresh_empty_world(1)
        createProject_tree [OF valid_demo fresh_empty_world(1) fresh_empty_world(2)]]])

text \<open>
  Claim C2 as stated fails on src/index.js: for the name \<open>demo\<close> on the empty filesystem
  the run succeeds and leaves the file \<open>demo/src/app.js\<close>, which is not one of the five
  files the claim enumerates.
\<close>

theorem createProject_tree_counterexample:
  "\<not> isl (createProject ''demo'' empty_world) \<and>
   files (projr (createProject ''demo'' empty_world)) [''demo'', ''src'', ''app.js''] =
     Some (Text appJsContent) \<and>
   [''demo'', ''src'', ''app.js''] \<notin>
     {[''demo'', ''package.json''], [''demo'', ''server.js''],
      [''demo'', ''src'', ''config'', ''db.js''], [''demo'', ''src'', ''routes'', ''index.js''],
      [''demo'', ''src'', ''routes'', ''userRoutes.js'']}"
proof -
  from createProject_succeeds [OF resolve_demo admits_fresh(1) [OF fresh_empty_world]]
  obtain w' where run: "createProject ''demo'' empty_world = Inr w'" by blast
  from createProject_InrD [OF resolve_demo run]
  have "files w' [''demo'', ''src'', ''app.js''] = Some (Text appJsContent)" by simp
  then show ?thesis unfolding run by simp
qed

section \<open>The two generators compared\<close>








section \<open>Running the generator twice\<close>

lemma admits_again:
  assumes "admits r w"
    and "dirs w' = dirs w \<union> set (prefixes r) \<union>
           {r @ [''public''], r @ [''src''], r @ [''src'', ''config''],
            r @ [''src'', ''controllers''], r @ [''src'', ''models''],
            r @ [''src'', ''routes''], r @ [''src'', ''utils'']}"
    and "files w' = (files w)
           (r @ [''package.json''] \<mapsto> c1,
            r @ [''src'', ''app.js''] \<mapsto> c2,
            r @ [''server.js''] \<mapsto> c3,
            r @ [''src'', ''config'', ''db.js''] \<mapsto> c4,
            r @ [''src'', ''routes'', ''index.js''] \<mapsto> c5,
            r @ [''src'', ''routes'', ''userRoutes.js''] \<mapsto> c6)"
  shows "admits r w'"
proof -
  have up: "\<forall>a\<in>set (prefixes r). files w' a = None"
  proof
    fix a assume "a \<in> set (prefixes r)"
    then have p: "prefix a r" by simp
    have "a \<noteq> r @ x # xs" for x xs using p by auto
    moreover have "files w a = None" using assms(1) p by (simp add: admits_def)
    ultimately show "files w' a = None" unfolding assms(3) by simp
  qed
  have rest: "files w' (r @ [''public'']) = None"
     "files w' (r @ [''src'']) = None"
     "files w' (r @ [''src'', ''config'']) = None"
     "files w' (r @ [''src'', ''controllers'']) = None"
     "files w' (r @ [''src'', ''models'']) = None"
     "files w' (r @ [''src'', ''routes'']) = None"
     "files w' (r @ [''src'', ''utils'']) = None"
    unfolding assms(3) using assms(1) by (simp_all add: admits_def)
  have nd: "r @ [''package.json''] \<notin> dirs w'"
     "r @ [''src'', ''app.js''] \<notin> dirs w'"
     "r @ [''server.js''] \<notin> dirs w'"
     "r @ [''src'', ''config'', ''db.js''] \<notin> dirs w'"
     "r @ [''src'', ''routes'', ''index.js''] \<notin> dirs w'"
     "r @ [''src'', ''routes'', ''userRoutes.js''] \<notin> dirs w'"
    unfolding assms(2) using assms(1) by (simp_all add: admits_def)
  from up rest nd show ?thesis by (simp add: admits_def)
qed

lemma steps_written:
  "WriteFile p c \<in> set (createProject_steps name) \<Longrightarrow>
   (p, c) \<in> {(dir name @ ''/package.json'', Stringify (packageJson name)),
              (dir name @ ''/src/app.js'', Text appJsContent),
              (dir name @ ''/server.js'', Text serverJsContent),
              (dir name @ ''/src/config/db.js'', Text dbJsContent),
              (dir name @ ''/src/routes/index.js'', Text routesIndexContent),
              (dir name @ ''/src/routes/userRoutes.js'', Text userRoutesContent)}"
  by (simp add: createProject_steps_def)

lemma written_again:
  assumes "f k1 = Some c1" "f k2 = Some c2" "f k3 = Some c3" "f k4 = Some c4" "f k5 = Some c5"
    "f k6 = Some c6"
  shows "f(k1 \<mapsto> c1, k2 \<mapsto> c2, k3 \<mapsto> c3, k4 \<mapsto> c4, k5 \<mapsto> c5, k6 \<mapsto> c6) = f"
  using assms by (simp add: map_upd_triv)

lemma written_at:
  assumes "files w1 = (files w)
           (r @ [''package.json''] \<mapsto> c1,
            r @ [''src'', ''app.js''] \<mapsto> c2,
            r @ [''server.js''] \<mapsto> c3,
            r @ [''src'', ''config'', ''db.js''] \<mapsto> c4,
            r @ [''src'', ''routes'', ''index.js''] \<mapsto> c5,
            r @ [''src'', ''routes'', ''userRoutes.js''] \<mapsto> c6)"
  shows "files w1 (r @ [''package.json'']) = Some c1"
    "files w1 (r @ [''src'', ''app.js'']) = Some c2"
    "files w1 (r @ [''server.js'']) = Some c3"
    "files w1 (r @ [''src'', ''config'', ''db.js'']) = Some c4"
    "files w1 (r @ [''src'', ''routes'', ''index.js'']) = Some c5"
    "files w1 (r @ [''src'', ''routes'', ''userRoutes.js'']) = Some c6"
  unfolding assms by simp_all


text \<open>
  Claim C6 (src/index.js). Generation is a function of the name and the filesystem. When
  a run with a name succeeds, a second run with the same name on the result succeeds
  too and leaves every file and every directory as the first run left them; each file
  that a step writes holds, after the first run and after the second, exactly the
  content that the step writes, whatever the path held before.
\<close>

theorem createProject_idempotent:
  assumes "createProject name w = Inr w1"
  shows "\<exists>w2. createProject name w1 = Inr w2 \<and> files w2 = files w1 \<and> dirs w2 = dirs w1 \<and>
           (\<forall>p c. WriteFile p c \<in> set (createProject_steps name) \<longrightarrow>
              files w1 (resolve p) = Some c \<and> files w2 (resolve p) = Some c)"
proof -
  define r where "r = resolve (dir name)"
  then have r: "resolve (dir name) = r" by simp
  define S where "S = set (prefixes r) \<union>
           {r @ [''public''], r @ [''src''], r @ [''src'', ''config''],
            r @ [''src'', ''controllers''], r @ [''src'', ''models''],
            r @ [''src'', ''routes''], r @ [''src'', ''utils'']}"
  note p1 = createProject_InrD [OF r assms]
  have adm0: "admits r w" using p1 by (rule conjunct1)
  have d1: "dirs w1 = dirs w \<union> set (prefixes r) \<union>
           {r @ [''public''], r @ [''src''], r @ [''src'', ''config''],
            r @ [''src'', ''controllers''], r @ [''src'', ''models''],
            r @ [''src'', ''routes''], r @ [''src'', ''utils'']}"
    using p1 by (rule conjunct1 [OF conjunct2])
  have f1: "files w1 = (files w)
           (r @ [''package.json''] \<mapsto> Stringify (packageJson name),
            r @ [''src'', ''app.js''] \<mapsto> Text appJsContent,
            r @ [''server.js''] \<mapsto> Text serverJsContent,
            r @ [''src'', ''config'', ''db.js''] \<mapsto> Text dbJsContent,
            r @ [''src'', ''routes'', ''index.js''] \<mapsto> Text routesIndexContent,
            r @ [''src'', ''routes'', ''userRoutes.js''] \<mapsto> Text userRoutesContent)"
    using p1 by (rule conjunct1 [OF conjunct2 [OF conjunct2]])
  have adm: "admits r w1" by (rule admits_again [OF adm0 d1 f1])
  from createProject_succeeds [OF r adm]
  obtain w2 where run2: "createProject name w1 = Inr w2" by blast
  note p2 = createProject_InrD [OF r run2]
  have d2: "dirs w2 = dirs w1 \<union> set (prefixes r) \<union>
           {r @ [''public''], r @ [''src''], r @ [''src'', ''config''],
            r @ [''src'', ''controllers''], r @ [''src'', ''models''],
            r @ [''src'', ''routes''], r @ [''src'', ''utils'']}"
    using p2 by (rule conjunct1 [OF conjunct2])
  have f2: "files w2 = (files w1)
           (r @ [''package.json''] \<mapsto> Stringify (packageJson name),
            r @ [''src'', ''app.js''] \<mapsto> Text appJsContent,
            r @ [''server.js''] \<mapsto> Text serverJsContent,
            r @ [''src'', ''config'', ''db.js''] \<mapsto> Text dbJsContent,
            r @ [''src'', ''routes'', ''index.js''] \<mapsto> Text routesIndexContent,
            r @ [''src'', ''routes'', ''userRoutes.js''] \<mapsto> Text userRoutesContent)"
    using p2 by (rule conjunct1 [OF conjunct2 [OF conjunct2]])
  note at = written_at [OF f1]
  have files: "files w2 = files w1"
    unfolding f2 by (rule written_again [of "files w1", OF at])
  have "dirs w1 = dirs w \<union> S" "dirs w2 = dirs w1 \<union> S"
    using d1 d2 by (simp_all add: S_def Un_assoc)
  then have dirs: "dirs w2 = dirs w1" by (simp add: Un_assoc)
  have written: "\<forall>p c. WriteFile p c \<in> set (createProject_steps name) \<longrightarrow>
              files w1 (resolve p) = Some c \<and> files w2 (resolve p) = Some c"
  proof (intro allI impI)
    fix p c assume "WriteFile p c \<in> set (createProject_steps name)"
    from steps_written [OF this]
    have "files w1 (resolve p) = Some c"
      using at by (auto simp: resolve_under r)
    then show "files w1 (resolve p) = Some c \<and> files w2 (resolve p) = Some c"
      using files by simp
  qed
  from run2 files dirs written show ?thesis by blast
qed

theorem createProject_idempotent_witness:
  "\<exists>w1 w2. createProject ''demo'' empty_world = Inr w1 \<and> createProject ''demo'' w1 = Inr w2 \<and>
     files w2 = files w1 \<and> dirs w2 = dirs w1 \<and>
     files w1 (resolve ''./demo/server.js'') = Some (Text serverJsContent) \<and>
     files w2 (resolve ''./demo/server.js'') = Some (Text serverJsContent)"
proof -
  from createProject_succeeds [OF resolve_demo admits_fresh(1) [OF fresh_empty_world]]
  obtain w1 where w1: "createProject ''demo'' empty_world = Inr w1" by blast
  from createProject_idempotent [OF w1] obtain w2 where
    w2: "createProject ''demo'' w1 = Inr w2" "files w2 = files w1" "dirs w2 = dirs w1"
      "\<forall>p c. WriteFile p c \<in> set (createProject_steps ''demo'') \<longrightarrow>
              files w1 (resolve p) = Some c \<and> files w2 (resolve p) = Some c"
    by blast
  have "WriteFile ''./demo/server.js'' (Text serverJsContent) \<in> set (createProject_steps ''demo'')"
    by (simp add: createProject_steps_def dir_def)
  with w2(4) have "files w1 (resolve ''./demo/server.js'') = Some (Text serverJsContent) \<and>
     files w2 (resolve ''./demo/server.js'') = Some (Text serverJsContent)"
    by blast
  with w1 w2(1,2,3) show ?thesis by blast
qed

section \<open>A failed installation\<close>

text \<open>
  Claim C8 (src/unnamed/part_000). When the steps before the installation have
  succeeded and the \<open>npm install\<close> command fails with some \<open>stderr\<close>, the generator
  catches the failure: it logs \<open>Error installing dependencies:\<close> followed by the
  \<open>stderr\<close> on the error console, and \<open>createProject\<close> resolves, with the world as the
  command left it. The process then ends with status 0.
\<close>

theorem install_failure_not_fatal:
  assumes "run (createProject_part_000_steps name) w = Inr w1"
    and "execPromise (''cd '' @ dir name @ '' && npm install'') w1 = (Some stderr, w2)"
  shows "createProject_part_000 execPromise name w =
           Inr (w2\<lparr>console := console w2 @
                  [Error (''Error installing dependencies: '' @ stderr)]\<rparr>) \<and>
         exit_status (createProject_part_000 execPromise name w) = 0"
  using assms by (simp add: createProject_part_000_def exit_status_def)

theorem install_failure_not_fatal_witness:
  "\<exists>w1. run (createProject_part_000_steps ''demo'') empty_world = Inr w1 \<and>
     createProject_part_000 (\<lambda>cmd w. (Some ''npm ERR!'', w)) ''demo'' empty_world =
       Inr (w1\<lparr>console := console w1 @
              [Error ''Error installing dependencies: npm ERR!'']\<rparr>) \<and>
     exit_status (createProject_part_000 (\<lambda>cmd w. (Some ''npm ERR!'', w)) ''demo'' empty_world) = 0"
proof -
  from part_000_succeeds [OF resolve_demo admits_fresh(2) [OF fresh_empty_world]]
  obtain w1 where w1: "run (createProject_part_000_steps ''demo'') empty_world = Inr w1" by blast
  have "(\<lambda>cmd w. (Some ''npm ERR!'', w)) (''cd '' @ dir ''demo'' @ '' && npm install'') w1 =
    (Some ''npm ERR!'', w1)"
    by simp
  note t = install_failure_not_fatal
    [of "''demo''" empty_world w1 "\<lambda>cmd w. (Some ''npm ERR!'', w)" "''npm ERR!''" w1, OF w1 this]
  have a: "createProject_part_000 (\<lambda>cmd w. (Some ''npm ERR!'', w)) ''demo'' empty_world =
       Inr (w1\<lparr>console := console w1 @
              [Error ''Error installing dependencies: npm ERR!'']\<rparr>)"
    using conjunct1 [OF t] by simp
  have b: "exit_status
      (createProject_part_000 (\<lambda>cmd w. (Some ''npm ERR!'', w)) ''demo'' empty_world) = 0"
    by (rule conjunct2 [OF t])
  from w1 a b show ?thesis by (intro exI [of _ w1] conjI)
qed

end
